theory Spec2Isabelle
  imports Main
begin

section \<open>The four server variants\<close>

text \<open>
  The repository holds four variants of one server. Each has its own copy of the
  CallTool request handler and its own HTTP front door:
  \<^item> \<open>SseQuery\<close>: src/server/mcp-server.js, an SSE transport per GET, kept in the map
    \<open>transports\<close>, addressed by the query parameter \<open>sessionId\<close>;
  \<^item> \<open>SseHeader\<close>: part_001, an SSE transport per GET, kept in the map \<open>sessions\<close>,
    addressed by the header \<open>x-mcp-session-id\<close> or the query parameter;
  \<^item> \<open>Stateless\<close>: part_000, a fresh server and transport for every POST;
  \<^item> \<open>SharedTransport\<close>: part_002, one transport made at startup, every request on
    \<open>/mcp\<close> handed to it.
\<close>

datatype variant = SseQuery | SseHeader | Stateless | SharedTransport

section \<open>Usage ledger\<close>

text \<open>
  Modelled from the spec: usage-service.js (the class UsageService and its method
  recordUsage) is imported by every variant but is not among the sources. Section 4.3 of
  the specification: record increments the count of the (session, operation) pair, creating
  it at 1 if absent, updates the last-seen timestamp, and has no error condition.
\<close>

record usage_record =
  invocations :: nat
  last_seen :: int

type_synonym ledger = "string \<times> string \<rightharpoonup> usage_record"

text \<open>
  Modelled from the spec: \<open>recordUsage\<close> of the missing usage-service.js, after section 4.3
  (increment the pair's count, create it at 1, set the last-seen time).
\<close>

definition recordUsage :: "ledger \<Rightarrow> int \<Rightarrow> string \<Rightarrow> string \<Rightarrow> ledger" where
  "recordUsage l now sid opn =
     l((sid, opn) \<mapsto>
        (case l (sid, opn) of
           None \<Rightarrow> \<lparr>invocations = 1, last_seen = now\<rparr>
         | Some r \<Rightarrow> \<lparr>invocations = invocations r + 1, last_seen = now\<rparr>))"

section \<open>The CallTool request handler\<close>

text \<open>
  A thrown value is represented by the text its \<open>message\<close> property interpolates to in the
  catch clause.
\<close>

type_synonym message = string

text \<open>
  \<open>request.params\<close>: the operation name and the optional \<open>arguments\<close> object (\<open>None\<close> is
  \<open>undefined\<close>); reading a property the object lacks gives \<open>undefined\<close>, again \<open>None\<close>.
\<close>

record 'a call_params =
  name :: string
  arguments :: "(string \<rightharpoonup> 'a) option"

text \<open>One call of a collaborator: \<open>tools[tool].operation(argv)\<close>.\<close>

record 'a tool_call =
  tool :: nat
  operation :: string
  argv :: "'a option list"

text \<open>
  The effects of the handler in the order it performs them, next to the ledger they act on.
\<close>

datatype 'a event = RecordUsage string string | Invoke "'a tool_call"

record 'a world =
  usage :: ledger
  trace :: "'a event list"

record content_item =
  ctype :: string
  ctext :: string

text \<open>The response envelope; \<open>isError = None\<close> is an envelope without that key.\<close>

record envelope =
  content :: "content_item list"
  isError :: "bool option"

definition successEnvelope :: "string \<Rightarrow> envelope" where
  "successEnvelope t = \<lparr>content = [\<lparr>ctype = ''text'', ctext = t\<rparr>], isError = None\<rparr>"

definition errorEnvelope :: "message \<Rightarrow> envelope" where
  "errorEnvelope m =
     \<lparr>content = [\<lparr>ctype = ''text'', ctext = ''Error: '' @ m\<rparr>], isError = Some True\<rparr>"

text \<open>
  Reading \<open>args.f\<close> for the fields of a call, left to right: on \<open>undefined\<close> the first read
  throws a TypeError.
\<close>

definition cannotRead :: "string \<Rightarrow> message" where
  "cannotRead f =
     ''Cannot read properties of undefined (reading '' @ [CHR 0x27] @ f @ [CHR 0x27] @ '')''"

fun readArgs :: "(string \<rightharpoonup> 'a) option \<Rightarrow> string list \<Rightarrow> message + 'a option list" where
  "readArgs None [] = Inr []"
| "readArgs None (f # fs) = Inl (cannotRead f)"
| "readArgs (Some m) fs = Inr (map m fs)"

definition toolCall ::
  "nat \<Rightarrow> string \<Rightarrow> string list \<Rightarrow> (string \<rightharpoonup> 'a) option \<Rightarrow> message + 'a tool_call" where
  "toolCall i m fs args =
     (case readArgs args fs of
        Inl e \<Rightarrow> Inl e
      | Inr vs \<Rightarrow> Inr \<lparr>tool = i, operation = m, argv = vs\<rparr>)"

text \<open>
  The names the ListTools handler announces: four in mcp-server.js, part_001 and part_002,
  nine in part_000.
\<close>

definition coreTools :: "string list" where
  "coreTools =
     [''fda_drug_lookup'', ''pubmed_search'', ''calculate_bmi'', ''clinical_trials_search'']"

fun listTools :: "variant \<Rightarrow> string list" where
  "listTools Stateless =
     coreTools @ [''health_topics_search'', ''icd_code_lookup'', ''medrxiv_search'',
       ''ncbi_bookshelf_search'', ''dicom_extract_metadata'']"
| "listTools v = coreTools"

text \<open>
  The \<open>switch (name)\<close> of mcp-server.js, part_001 and part_002: the result is the call to
  make, or the thrown message.
\<close>

definition switch4 :: "string \<Rightarrow> (string \<rightharpoonup> 'a) option \<Rightarrow> message + 'a tool_call" where
  "switch4 n args =
     (if n = ''fda_drug_lookup'' then
        toolCall 0 ''lookupDrug'' [''drug_name'', ''search_type''] args
      else if n = ''pubmed_search'' then
        toolCall 1 ''searchLiterature''
          [''query'', ''max_results'', ''date_range'', ''open_access''] args
      else if n = ''calculate_bmi'' then
        toolCall 6 ''calculateBmi'' [''height_meters'', ''weight_kg''] args
      else if n = ''clinical_trials_search'' then
        toolCall 3 ''searchTrials'' [''condition'', ''status'', ''max_results''] args
      else Inl (''Unknown tool: '' @ n))"

text \<open>The \<open>switch (name)\<close> of part_000.\<close>

definition switch9 :: "string \<Rightarrow> (string \<rightharpoonup> 'a) option \<Rightarrow> message + 'a tool_call" where
  "switch9 n args =
     (if n = ''fda_drug_lookup'' then
        toolCall 0 ''lookupDrug'' [''drug_name'', ''search_type''] args
      else if n = ''pubmed_search'' then
        toolCall 1 ''searchLiterature''
          [''query'', ''max_results'', ''date_range'', ''open_access''] args
      else if n = ''calculate_bmi'' then
        toolCall 6 ''calculateBmi'' [''height_meters'', ''weight_kg''] args
      else if n = ''clinical_trials_search'' then
        toolCall 3 ''searchTrials'' [''condition'', ''status'', ''max_results''] args
      else if n = ''health_topics_search'' then
        toolCall 2 ''getHealthTopics'' [''topic'', ''language''] args
      else if n = ''icd_code_lookup'' then
        toolCall 4 ''lookupICDCode'' [''code'', ''description'', ''max_results''] args
      else if n = ''medrxiv_search'' then
        toolCall 5 ''search'' [''query'', ''max_results''] args
      else if n = ''ncbi_bookshelf_search'' then
        toolCall 7 ''search'' [''query'', ''max_results''] args
      else if n = ''dicom_extract_metadata'' then
        toolCall 8 ''extractMetadata'' [''file_path''] args
      else Inl (''Unknown tool: '' @ n))"

fun switchTool :: "variant \<Rightarrow> string \<Rightarrow> (string \<rightharpoonup> 'a) option \<Rightarrow> message + 'a tool_call" where
  "switchTool Stateless n args = switch9 n args"
| "switchTool v n args = switch4 n args"

text \<open>The constant every copy of the handler binds to \<open>sessionId\<close>.\<close>

definition sessionId :: string where
  "sessionId = ''streamable-session''"

text \<open>
  The \<open>try\<close> block up to the end of the \<open>switch\<close>. The collaborators are external: \<open>tools\<close>
  gives, for each call, the value it returns or the message of what it throws. They are
  constructed from the cache service alone and hold no reference to the usage service.
\<close>

definition tryBlock ::
  "variant \<Rightarrow> ('a tool_call \<Rightarrow> message + 'r) \<Rightarrow> int \<Rightarrow> 'a call_params \<Rightarrow> 'a world
     \<Rightarrow> (message + 'r) \<times> 'a world" where
  "tryBlock v tools now params w =
     (let w1 = w\<lparr>usage := recordUsage (usage w) now sessionId (name params),
                  trace := trace w @ [RecordUsage sessionId (name params)]\<rparr>
      in case switchTool v (name params) (arguments params) of
           Inl e \<Rightarrow> (Inl e, w1)
         | Inr c \<Rightarrow> (tools c, w1\<lparr>trace := trace w1 @ [Invoke c]\<rparr>))"

text \<open>
  The handler \<open>async (request) => ...\<close>. \<open>stringify\<close> is \<open>JSON.stringify(result, null, 2)\<close>,
  which may throw too; \<open>extra\<close> is the second argument the SDK passes to a request handler
  (it carries the transport's session identifier), which the handler does not bind. Every
  statement after the destructuring of \<open>request.params\<close> is inside \<open>try\<close>, so the handler
  returns an envelope on every path.
\<close>

definition callTool ::
  "variant \<Rightarrow> ('a tool_call \<Rightarrow> message + 'r) \<Rightarrow> ('r \<Rightarrow> message + string) \<Rightarrow> int
     \<Rightarrow> 'a call_params \<Rightarrow> string option \<Rightarrow> 'a world \<Rightarrow> envelope \<times> 'a world" where
  "callTool v tools stringify now params extra w =
     (case tryBlock v tools now params w of
        (Inl e, w') \<Rightarrow> (errorEnvelope e, w')
      | (Inr r, w') \<Rightarrow>
          (case stringify r of
             Inl e \<Rightarrow> (errorEnvelope e, w')
           | Inr t \<Rightarrow> (successEnvelope t, w')))"

section \<open>The HTTP front doors\<close>

text \<open>
  A request as the handlers read it: \<open>req.method\<close> (the field \<open>reqMethod\<close>), \<open>url.pathname\<close>, the header
  \<open>req.headers["x-mcp-session-id"]\<close>, the query parameter
  \<open>url.searchParams.get("sessionId")\<close> (\<open>None\<close> is \<open>undefined\<close> or \<open>null\<close>), and the
  connection \<open>res\<close> answers on.
\<close>

record request =
  reqMethod :: string
  pathname :: string
  sessionHeader :: "string option"
  sessionParam :: "string option"
  conn :: nat

record response =
  status :: nat
  headers :: "(string \<times> string) list"
  body :: string

text \<open>\<open>new SSEServerTransport(endpoint, res)\<close>.\<close>

record transport =
  endpoint :: string
  res :: nat

text \<open>
  What one run of a front door does with the request:
  \<^item> \<open>Replied\<close>: \<open>writeHead\<close> and \<open>end\<close> with this response;
  \<^item> \<open>StreamOpened\<close>: the transport is connected to the server and the \<open>close\<close> listener
    for this session identifier is registered; the headers are those set so far;
  \<^item> \<open>Forwarded\<close>: the request is handed to \<open>handlePostMessage\<close> of this transport;
  \<^item> \<open>Unhandled\<close>: the async handler rejects with this message;
  \<^item> \<open>Aborted\<close>: an error after the headers were sent, nothing more is written.
\<close>

datatype outcome =
    Replied response
  | StreamOpened string transport "(string \<times> string) list"
  | Forwarded transport
  | Unhandled message
  | Aborted

text \<open>
  What the run draws from outside: the value of \<open>randomUUID()\<close> and whether
  \<open>mcpServer.connect(transport)\<close> throws.
\<close>

record env =
  randomUUID :: string
  connect :: "message option"

text \<open>JavaScript truthiness of a string or \<open>undefined\<close>, and \<open>a || b\<close> on such values.\<close>

definition truthy :: "string option \<Rightarrow> bool" where
  "truthy s = (case s of None \<Rightarrow> False | Some x \<Rightarrow> x \<noteq> [])"

definition orElse :: "string option \<Rightarrow> string option \<Rightarrow> string option" where
  "orElse a b = (if truthy a then a else b)"

text \<open>The listener \<open>req.on("close", ...)\<close> of both session-keyed variants: \<open>Map.delete\<close>.\<close>

definition closeHandler :: "string \<Rightarrow> (string \<rightharpoonup> transport) \<Rightarrow> (string \<rightharpoonup> transport)" where
  "closeHandler sid table = table(sid := None)"

text \<open>The calls a close listener can make on the channel: \<open>transport.close()\<close> and \<open>server.close()\<close>.\<close>

datatype channel_call = TransportClose | ServerClose

text \<open>
  The whole body of the listener \<open>req.on("close", ...)\<close> of src/server/mcp-server.js and
  part_001, the same two statements on \<open>transports\<close> and on \<open>sessions\<close>: a log line, left
  out, and \<open>Map.delete\<close>. The result is the table after the run together with the calls the
  run makes on the transport or the server, of which the body has none.
\<close>

definition closeListener ::
  "string \<Rightarrow> (string \<rightharpoonup> transport) \<Rightarrow> (string \<rightharpoonup> transport) \<times> channel_call list" where
  "closeListener sid table = (closeHandler sid table, [])"

text \<open>
  The body of the listener \<open>res.on("close", ...)\<close> of part_000, which keeps no table: a log
  line, left out, then \<open>transport.close()\<close> and \<open>server.close()\<close> on the objects made for the
  request.
\<close>

definition closeListenerStateless :: "channel_call list" where
  "closeListenerStateless = [TransportClose, ServerClose]"

subsection \<open>src/server/mcp-server.js\<close>

definition corsSse :: "(string \<times> string) list" where
  "corsSse =
     [(''Access-Control-Allow-Origin'', ''*''),
      (''Access-Control-Allow-Methods'', ''GET, POST, OPTIONS''),
      (''Access-Control-Allow-Headers'', ''Content-Type, Authorization'')]"

definition notFoundSse :: response where
  \<open>notFoundSse =
     \<lparr>status = 404, headers = corsSse @ [(''Content-Type'', ''application/json'')],
      body = ''{"error":"Session not found. Connect via GET first."}''\<rparr>\<close>

text \<open>The session identifier of a POST: the query parameter only.\<close>

definition postSessionSse :: "request \<Rightarrow> string option" where
  "postSessionSse req = sessionParam req"

definition httpServerSse ::
  "env \<Rightarrow> request \<Rightarrow> (string \<rightharpoonup> transport) \<Rightarrow> outcome \<times> (string \<rightharpoonup> transport)" where
  "httpServerSse e req transports =
     (if reqMethod req = ''OPTIONS'' then
        (Replied \<lparr>status = 204, headers = corsSse, body = []\<rparr>, transports)
      else if pathname req = ''/mcp'' \<and> reqMethod req = ''GET'' then
        (let sid = randomUUID e;
             t = \<lparr>endpoint = ''/mcp?sessionId='' @ sid, res = conn req\<rparr>;
             transports' = transports(sid \<mapsto> t)
         in case connect e of
              Some m \<Rightarrow> (Unhandled m, transports')
            | None \<Rightarrow> (StreamOpened sid t corsSse, transports'))
      else if pathname req = ''/mcp'' \<and> reqMethod req = ''POST'' then
        (case postSessionSse req of
           None \<Rightarrow> (Replied notFoundSse, transports)
         | Some sid \<Rightarrow>
             if sid = [] then (Replied notFoundSse, transports)
             else (case transports sid of
                     None \<Rightarrow> (Replied notFoundSse, transports)
                   | Some t \<Rightarrow> (Forwarded t, transports)))
      else (Replied \<lparr>status = 404, headers = corsSse, body = ''Not Found''\<rparr>, transports))"

subsection \<open>part_001\<close>

definition corsHeader :: "(string \<times> string) list" where
  "corsHeader =
     [(''Access-Control-Allow-Origin'', ''*''),
      (''Access-Control-Allow-Methods'', ''GET, POST, OPTIONS''),
      (''Access-Control-Allow-Headers'', ''Content-Type, Authorization, X-Mcp-Session-Id'')]"

definition invalidSession :: response where
  \<open>invalidSession =
     \<lparr>status = 401, headers = corsHeader @ [(''Content-Type'', ''application/json'')],
      body = ''{"error":"Session ID required or invalid. Connect via GET /mcp first."}''\<rparr>\<close>

text \<open>The session identifier of a POST: the header, or else the query parameter.\<close>

definition postSessionHeader :: "request \<Rightarrow> string option" where
  "postSessionHeader req = orElse (sessionHeader req) (sessionParam req)"

definition httpServerHeader ::
  "env \<Rightarrow> request \<Rightarrow> (string \<rightharpoonup> transport) \<Rightarrow> outcome \<times> (string \<rightharpoonup> transport)" where
  "httpServerHeader e req sessions =
     (if reqMethod req = ''OPTIONS'' then
        (Replied \<lparr>status = 204, headers = corsHeader, body = []\<rparr>, sessions)
      else if pathname req = ''/mcp'' \<and> reqMethod req = ''GET'' then
        (let t = \<lparr>endpoint = ''/mcp'', res = conn req\<rparr>;
             sid = randomUUID e;
             sessions' = sessions(sid \<mapsto> t);
             hs = corsHeader @ [(''X-Mcp-Session-Id'', sid)]
         in case connect e of
              Some m \<Rightarrow> (Unhandled m, sessions')
            | None \<Rightarrow> (StreamOpened sid t hs, sessions'))
      else if pathname req = ''/mcp'' \<and> reqMethod req = ''POST'' then
        (case postSessionHeader req of
           None \<Rightarrow> (Replied invalidSession, sessions)
         | Some sid \<Rightarrow>
             if sid = [] then (Replied invalidSession, sessions)
             else (case sessions sid of
                     None \<Rightarrow> (Replied invalidSession, sessions)
                   | Some t \<Rightarrow> (Forwarded t, sessions)))
      else (Replied \<lparr>status = 404, headers = corsHeader,
                     body = ''Not Found - Use /mcp endpoint''\<rparr>, sessions))"

subsection \<open>part_000\<close>

text \<open>
  The SDK is external: \<open>sdk req\<close> is what \<open>server.connect(transport)\<close> followed by
  \<open>transport.handleRequest(req, res)\<close> does, the response written, or a throw together
  with the value of \<open>res.headersSent\<close> at that moment.
\<close>

definition internalError :: response where
  \<open>internalError =
     \<lparr>status = 500, headers = [(''Content-Type'', ''application/json'')],
      body = ''{"jsonrpc":"2.0","error":{"code":-32603,"message":"Internal server error"},"id":null}''\<rparr>\<close>

definition methodNotAllowed :: response where
  \<open>methodNotAllowed =
     \<lparr>status = 405, headers = [(''Content-Type'', ''application/json'')],
      body = ''{"jsonrpc":"2.0","error":{"code":-32000,"message":"Method not allowed."},"id":null}''\<rparr>\<close>

definition httpServerStateless :: "(request \<Rightarrow> bool + response) \<Rightarrow> request \<Rightarrow> outcome" where
  "httpServerStateless sdk req =
     (if pathname req = ''/mcp'' \<and> reqMethod req = ''POST'' then
        (case sdk req of
           Inr r \<Rightarrow> Replied r
         | Inl headersSent \<Rightarrow> if \<not> headersSent then Replied internalError else Aborted)
      else if pathname req = ''/mcp'' \<and> (reqMethod req = ''GET'' \<or> reqMethod req = ''DELETE'') then
        Replied methodNotAllowed
      else if pathname req = ''/mcp'' \<and> reqMethod req = ''OPTIONS'' then
        Replied \<lparr>status = 204,
          headers = [(''Access-Control-Allow-Origin'', ''*''),
                     (''Access-Control-Allow-Methods'', ''POST, OPTIONS''),
                     (''Access-Control-Allow-Headers'', ''Content-Type, mcp-session-id'')],
          body = []\<rparr>
      else Replied \<lparr>status = 404, headers = [], body = ''Not Found''\<rparr>)"

subsection \<open>part_002\<close>

text \<open>
  Every request on \<open>/mcp\<close>, whatever its method, goes to \<open>transport.handleRequest(req, res)\<close>
  of the SDK's transport: \<open>handleRequest req\<close> is the response it writes, or the message of
  what it throws. Nothing catches the throw.
\<close>

definition httpServerShared :: "(request \<Rightarrow> message + response) \<Rightarrow> request \<Rightarrow> outcome" where
  "httpServerShared handleRequest req =
     (if pathname req = ''/mcp'' then
        (case handleRequest req of Inl m \<Rightarrow> Unhandled m | Inr r \<Rightarrow> Replied r)
      else Replied \<lparr>status = 404, headers = [], body = ''Not Found''\<rparr>)"

text \<open>A response is a rejection when its status is in the 4xx class.\<close>

definition rejected :: "outcome \<Rightarrow> bool" where
  "rejected out = (case out of Replied r \<Rightarrow> 400 \<le> status r \<and> status r < 500 | _ \<Rightarrow> False)"

text \<open>
  The resolved session identifier of a POST names no live entry: it is missing, or the
  table has nothing under it.
\<close>

definition noLiveSession :: "(string \<rightharpoonup> transport) \<Rightarrow> string option \<Rightarrow> bool" where
  "noLiveSession table s = (case s of None \<Rightarrow> True | Some sid \<Rightarrow> table sid = None)"

section \<open>The TTL cache\<close>

text \<open>
  The construction \<open>new CacheService(parseInt(process.env.CACHE_TTL) || 86400)\<close>, the same
  line in all four variants. The argument is the result of \<open>parseInt\<close> (\<open>None\<close> is NaN, which
  an unset variable gives too); NaN and 0 are falsy.
\<close>

definition cacheTtl :: "int option \<Rightarrow> int" where
  "cacheTtl parsed = (case parsed of None \<Rightarrow> 86400 | Some n \<Rightarrow> if n = 0 then 86400 else n)"

text \<open>
  Modelled from the spec: cache-service.js (the class CacheService with its get and set) is
  imported by every variant but is not among the sources. Sections 3 and 4.2 of the
  specification: an entry holds the value and its stored-at time, the TTL is one number of
  seconds for the whole cache; get returns absent if the key was never stored or if
  \<open>now - stored_at >= ttl\<close>, and removes such an expired entry from the backing store on
  that read; set stores with \<open>stored_at = now\<close>, overwriting any entry of the key.
\<close>

record 'v cache_entry =
  val :: 'v
  stored_at :: int

record 'v cache =
  ttl :: int
  store :: "string \<rightharpoonup> 'v cache_entry"

definition newCacheService :: "int option \<Rightarrow> 'v cache" where
  "newCacheService parsed = \<lparr>ttl = cacheTtl parsed, store = Map.empty\<rparr>"

text \<open>
  Modelled from the spec: \<open>get\<close> of the missing cache-service.js, after section 4.2 (absent
  if never stored or if \<open>now - stored_at >= ttl\<close>; the expired entry is removed by the read).
\<close>

definition cacheGet :: "'v cache \<Rightarrow> int \<Rightarrow> string \<Rightarrow> 'v option \<times> 'v cache" where
  "cacheGet c now k =
     (case store c k of
        None \<Rightarrow> (None, c)
      | Some en \<Rightarrow>
          if now - stored_at en \<ge> ttl c then (None, c\<lparr>store := (store c)(k := None)\<rparr>)
          else (Some (val en), c))"

text \<open>
  Modelled from the spec: \<open>set\<close> of the missing cache-service.js, after section 4.2 (store
  with \<open>stored_at = now\<close>, overwriting any entry of the key).
\<close>

definition cacheSet :: "'v cache \<Rightarrow> int \<Rightarrow> string \<Rightarrow> 'v \<Rightarrow> 'v cache" where
  "cacheSet c now k v = c\<lparr>store := (store c)(k \<mapsto> \<lparr>val = v, stored_at = now\<rparr>)\<rparr>"

section \<open>Sample collaborators\<close>

text \<open>
  Concrete stand-ins for the external parts, used where a statement is evaluated at an
  input: a collaborator that always throws, one that echoes the operation it was asked
  for, a \<open>JSON.stringify\<close> that returns its argument, an SDK that throws before any header is
  sent, and an SDK transport that honours every request with status 200.
\<close>

definition failingTools :: "nat tool_call \<Rightarrow> message + string" where
  "failingTools c = Inl ''upstream unavailable''"

definition echoTools :: "nat tool_call \<Rightarrow> message + string" where
  "echoTools c = Inr (operation c)"

definition plainStringify :: "string \<Rightarrow> message + string" where
  "plainStringify r = Inr r"

definition failingSdk :: "request \<Rightarrow> bool + response" where
  "failingSdk req = Inl False"

definition acceptingTransport :: "request \<Rightarrow> message + response" where
  "acceptingTransport req = Inr \<lparr>status = 200, headers = [], body = []\<rparr>"

definition emptyWorld :: "nat world" where
  "emptyWorld = \<lparr>usage = Map.empty, trace = []\<rparr>"

section \<open>Properties of the dispatcher\<close>

lemma switchTool_unknown:
  "n \<notin> set (listTools v) \<Longrightarrow> switchTool v n args = Inl (''Unknown tool: '' @ n)"
  by (cases v) (simp_all add: coreTools_def switch4_def switch9_def)

lemma toolCall_present:
  "toolCall i m fs (Some a) = Inr \<lparr>tool = i, operation = m, argv = map a fs\<rparr>"
  by (simp add: toolCall_def)

lemma switchTool_known:
  "n \<in> set (listTools v) \<Longrightarrow> \<exists>c. switchTool v n (Some a) = Inr c"
  by (cases v) (auto simp: coreTools_def switch4_def switch9_def toolCall_present)

lemma callTool_usage:
  "usage (snd (callTool v tools stringify now params extra w)) =
     recordUsage (usage w) now sessionId (name params)"
  by (simp add: callTool_def tryBlock_def Let_def split: sum.splits prod.splits)

lemma callTool_trace_thrown:
  "switchTool v (name params) (arguments params) = Inl m \<Longrightarrow>
   callTool v tools stringify now params extra w =
     (errorEnvelope m,
      w\<lparr>usage := recordUsage (usage w) now sessionId (name params),
        trace := trace w @ [RecordUsage sessionId (name params)]\<rparr>)"
  by (simp add: callTool_def tryBlock_def Let_def)

lemma callTool_trace_invoked:
  "switchTool v (name params) (arguments params) = Inr c \<Longrightarrow>
   trace (snd (callTool v tools stringify now params extra w)) =
     trace w @ [RecordUsage sessionId (name params), Invoke c]"
  by (simp add: callTool_def tryBlock_def Let_def split: sum.splits prod.splits)

lemma callTool_collaborator_failure:
  "switchTool v (name params) (arguments params) = Inr c \<Longrightarrow> tools c = Inl m \<Longrightarrow>
   fst (callTool v tools stringify now params extra w) = errorEnvelope m"
  by (simp add: callTool_def tryBlock_def Let_def)

lemma callTool_new_events:
  "drop (length (trace w)) (trace (snd (callTool v tools stringify now params extra w))) =
     RecordUsage sessionId (name params) #
       (case switchTool v (name params) (arguments params) of
          Inl m \<Rightarrow> [] | Inr c \<Rightarrow> [Invoke c])"
  by (cases "switchTool v (name params) (arguments params)")
     (simp_all add: callTool_trace_thrown callTool_trace_invoked)

text \<open>
  C4. For every operation name that is not in the tool registry of the variant, the CallTool
  handler returns the error envelope for the message \<open>Unknown tool: name\<close>: the one
  envelope constructor used for every thrown value (a collaborator failure included), a
  single text item starting with \<open>Error: \<close> and \<open>isError\<close> set, and no success envelope.
  The handler is a total function into envelopes: the throw of the \<open>default\<close> branch is
  caught inside it.
\<close>

theorem unknown_operation_error_envelope:
  "name params \<notin> set (listTools v) \<Longrightarrow>
     fst (callTool v tools stringify now params extra w)
       = errorEnvelope (''Unknown tool: '' @ name params) \<and>
     isError (fst (callTool v tools stringify now params extra w)) = Some True \<and>
     content (fst (callTool v tools stringify now params extra w))
       = [\<lparr>ctype = ''text'', ctext = ''Error: Unknown tool: '' @ name params\<rparr>]"
  by (simp add: callTool_trace_thrown [OF switchTool_unknown] errorEnvelope_def)

theorem unknown_operation_error_envelope_witness:
  "''launch_rocket'' \<notin> set (listTools Stateless) \<and>
   fst (callTool Stateless echoTools plainStringify 7
          \<lparr>name = ''launch_rocket'', arguments = None\<rparr> None emptyWorld)
     = \<lparr>content = [\<lparr>ctype = ''text'', ctext = ''Error: Unknown tool: launch_rocket''\<rparr>],
        isError = Some True\<rparr>"
  using unknown_operation_error_envelope
    [of "\<lparr>name = ''launch_rocket'', arguments = None\<rparr>" Stateless echoTools plainStringify 7
        None emptyWorld]
  by (simp add: coreTools_def errorEnvelope_def)

text \<open>
  C5, as the code has it. Recording usage is the first effect of every dispatch, before the
  \<open>switch\<close> on the operation name: the ledger after the call is the ledger with the pair
  (\<open>streamable-session\<close>, name) recorded, for registered and unregistered names alike. If
  the \<open>switch\<close> throws (an unknown name gives \<open>Unknown tool: name\<close>), the result is the error
  envelope of the message and no collaborator is invoked. If it reaches a collaborator call,
  the call follows the recording in the trace, and a failure of the collaborator gives the
  error envelope while the usage stays recorded. A registered name with an arguments object
  always reaches its collaborator.
\<close>

theorem callTool_records_usage_first:
  "usage (snd (callTool v tools stringify now params extra w))
     = recordUsage (usage w) now sessionId (name params) \<and>
   (\<forall>m. switchTool v (name params) (arguments params) = Inl m \<longrightarrow>
      fst (callTool v tools stringify now params extra w) = errorEnvelope m \<and>
      trace (snd (callTool v tools stringify now params extra w))
        = trace w @ [RecordUsage sessionId (name params)]) \<and>
   (\<forall>c. switchTool v (name params) (arguments params) = Inr c \<longrightarrow>
      trace (snd (callTool v tools stringify now params extra w))
        = trace w @ [RecordUsage sessionId (name params), Invoke c] \<and>
      (\<forall>m. tools c = Inl m \<longrightarrow>
         fst (callTool v tools stringify now params extra w) = errorEnvelope m)) \<and>
   (name params \<notin> set (listTools v) \<longrightarrow>
      switchTool v (name params) (arguments params) = Inl (''Unknown tool: '' @ name params)) \<and>
   (name params \<in> set (listTools v) \<longrightarrow> arguments params \<noteq> None \<longrightarrow>
      (\<exists>c. switchTool v (name params) (arguments params) = Inr c))"
proof (intro conjI allI impI)
  show "usage (snd (callTool v tools stringify now params extra w))
     = recordUsage (usage w) now sessionId (name params)"
    by (rule callTool_usage)
next
  fix m assume "switchTool v (name params) (arguments params) = Inl m"
  then have thrown: "callTool v tools stringify now params extra w =
     (errorEnvelope m,
      w\<lparr>usage := recordUsage (usage w) now sessionId (name params),
        trace := trace w @ [RecordUsage sessionId (name params)]\<rparr>)"
    by (rule callTool_trace_thrown)
  show "fst (callTool v tools stringify now params extra w) = errorEnvelope m"
    by (simp add: thrown)
  show "trace (snd (callTool v tools stringify now params extra w))
        = trace w @ [RecordUsage sessionId (name params)]"
    by (simp add: thrown)
next
  fix c assume c: "switchTool v (name params) (arguments params) = Inr c"
  show "trace (snd (callTool v tools stringify now params extra w))
        = trace w @ [RecordUsage sessionId (name params), Invoke c]"
    by (rule callTool_trace_invoked [OF c])
  fix m assume "tools c = Inl m"
  then show "fst (callTool v tools stringify now params extra w) = errorEnvelope m"
    by (rule callTool_collaborator_failure [OF c])
next
  assume "name params \<notin> set (listTools v)"
  then show "switchTool v (name params) (arguments params)
      = Inl (''Unknown tool: '' @ name params)"
    by (rule switchTool_unknown)
next
  assume "name params \<in> set (listTools v)" and "arguments params \<noteq> None"
  then show "\<exists>c. switchTool v (name params) (arguments params) = Inr c"
    using switchTool_known by fastforce
qed

theorem callTool_records_usage_first_witness:
  "switchTool SseHeader ''calculate_bmi'' (Some [''height_meters'' \<mapsto> 180, ''weight_kg'' \<mapsto> 80])
     = Inr \<lparr>tool = 6, operation = ''calculateBmi'', argv = [Some 180, Some (80::nat)]\<rparr> \<and>
   failingTools \<lparr>tool = 6, operation = ''calculateBmi'', argv = [Some 180, Some 80]\<rparr>
     = Inl ''upstream unavailable'' \<and>
   fst (callTool SseHeader failingTools plainStringify 7
         \<lparr>name = ''calculate_bmi'',
          arguments = Some [''height_meters'' \<mapsto> 180, ''weight_kg'' \<mapsto> 80]\<rparr> None emptyWorld)
     = errorEnvelope ''upstream unavailable'' \<and>
   trace (snd (callTool SseHeader failingTools plainStringify 7
         \<lparr>name = ''calculate_bmi'',
          arguments = Some [''height_meters'' \<mapsto> 180, ''weight_kg'' \<mapsto> 80]\<rparr> None emptyWorld))
     = [RecordUsage sessionId ''calculate_bmi'',
        Invoke \<lparr>tool = 6, operation = ''calculateBmi'', argv = [Some 180, Some 80]\<rparr>] \<and>
   usage (snd (callTool SseHeader failingTools plainStringify 7
         \<lparr>name = ''calculate_bmi'',
          arguments = Some [''height_meters'' \<mapsto> 180, ''weight_kg'' \<mapsto> 80]\<rparr> None emptyWorld))
       (sessionId, ''calculate_bmi'')
     = Some \<lparr>invocations = 1, last_seen = 7\<rparr>"
  using callTool_records_usage_first
    [of SseHeader failingTools plainStringify 7
        "\<lparr>name = ''calculate_bmi'',
          arguments = Some [''height_meters'' \<mapsto> 180, ''weight_kg'' \<mapsto> 80]\<rparr>" None emptyWorld]
  by (simp add: switch4_def toolCall_def failingTools_def emptyWorld_def recordUsage_def)

text \<open>
  The claim C5 as stated puts the registry check before the recording, so that a dispatch
  failing with an unknown operation records nothing. In the code the recording comes first:
  an unregistered name, on an empty ledger, leaves one recorded invocation.
\<close>

theorem usage_recorded_before_registry_check_counterexample:
  "''launch_rocket'' \<notin> set (listTools SseQuery) \<and>
   usage emptyWorld (''streamable-session'', ''launch_rocket'') = None \<and>
   usage (snd (callTool SseQuery echoTools plainStringify 7
                 \<lparr>name = ''launch_rocket'', arguments = None\<rparr> None emptyWorld))
       (''streamable-session'', ''launch_rocket'')
     = Some \<lparr>invocations = 1, last_seen = 7\<rparr>"
  by (simp add: callTool_def tryBlock_def switch4_def coreTools_def emptyWorld_def
      recordUsage_def sessionId_def Let_def)

text \<open>
  C10. In every variant, whatever transport session identifier the SDK passes along with
  the request, a tool invocation records its usage under the constant session identifier
  \<open>streamable-session\<close>: that one ledger key of the operation is created at 1 or
  incremented, and every other ledger key, in particular every key under another session
  identifier, is left as it was; the only recording the dispatch performs is the one for
  (\<open>streamable-session\<close>, name).
\<close>

theorem usage_only_under_fixed_session:
  "usage (snd (callTool v tools stringify now params extra w))
       (''streamable-session'', name params)
     = Some \<lparr>invocations =
               (case usage w (''streamable-session'', name params) of
                  None \<Rightarrow> 1 | Some r \<Rightarrow> invocations r + 1),
             last_seen = now\<rparr> \<and>
   ((sid, opn) \<noteq> (''streamable-session'', name params) \<longrightarrow>
      usage (snd (callTool v tools stringify now params extra w)) (sid, opn)
        = usage w (sid, opn)) \<and>
   (RecordUsage sid opn
      \<in> set (drop (length (trace w))
                (trace (snd (callTool v tools stringify now params extra w)))) \<longrightarrow>
      sid = ''streamable-session'' \<and> opn = name params)"
proof (intro conjI impI)
  show "usage (snd (callTool v tools stringify now params extra w))
       (''streamable-session'', name params)
     = Some \<lparr>invocations =
               (case usage w (''streamable-session'', name params) of
                  None \<Rightarrow> 1 | Some r \<Rightarrow> invocations r + 1),
             last_seen = now\<rparr>"
    by (simp add: callTool_usage recordUsage_def sessionId_def split: option.splits)
next
  assume "(sid, opn) \<noteq> (''streamable-session'', name params)"
  then show "usage (snd (callTool v tools stringify now params extra w)) (sid, opn)
        = usage w (sid, opn)"
    by (auto simp: callTool_usage recordUsage_def sessionId_def)
next
  assume a: "RecordUsage sid opn
      \<in> set (drop (length (trace w))
                (trace (snd (callTool v tools stringify now params extra w))))"
  then show "sid = ''streamable-session''"
    by (auto simp: callTool_new_events sessionId_def split: sum.splits)
  from a show "opn = name params"
    by (auto simp: callTool_new_events sessionId_def split: sum.splits)
qed

theorem usage_only_under_fixed_session_witness:
  "(''7f3c2a10-5d4e-4b6a-9c1d-2e8f0a1b3c4d'', ''pubmed_search'')
     \<noteq> (''streamable-session'', ''pubmed_search'') \<and>
   usage (snd (callTool SharedTransport echoTools plainStringify 7
            \<lparr>name = ''pubmed_search'', arguments = Some [''query'' \<mapsto> (1::nat)]\<rparr>
            (Some ''7f3c2a10-5d4e-4b6a-9c1d-2e8f0a1b3c4d'') emptyWorld))
       (''7f3c2a10-5d4e-4b6a-9c1d-2e8f0a1b3c4d'', ''pubmed_search'') = None \<and>
   usage (snd (callTool SharedTransport echoTools plainStringify 7
            \<lparr>name = ''pubmed_search'', arguments = Some [''query'' \<mapsto> (1::nat)]\<rparr>
            (Some ''7f3c2a10-5d4e-4b6a-9c1d-2e8f0a1b3c4d'') emptyWorld))
       (''streamable-session'', ''pubmed_search'') = Some \<lparr>invocations = 1, last_seen = 7\<rparr> \<and>
   RecordUsage ''streamable-session'' ''pubmed_search''
     \<in> set (drop (length (trace emptyWorld))
          (trace (snd (callTool SharedTransport echoTools plainStringify 7
            \<lparr>name = ''pubmed_search'', arguments = Some [''query'' \<mapsto> (1::nat)]\<rparr>
            (Some ''7f3c2a10-5d4e-4b6a-9c1d-2e8f0a1b3c4d'') emptyWorld))))"
  using usage_only_under_fixed_session
    [of SharedTransport echoTools plainStringify 7
        "\<lparr>name = ''pubmed_search'', arguments = Some [''query'' \<mapsto> (1::nat)]\<rparr>"
        "Some ''7f3c2a10-5d4e-4b6a-9c1d-2e8f0a1b3c4d''" emptyWorld
        "''7f3c2a10-5d4e-4b6a-9c1d-2e8f0a1b3c4d''" "''pubmed_search''"]
  by (simp add: emptyWorld_def callTool_def tryBlock_def switch4_def toolCall_def
      echoTools_def plainStringify_def sessionId_def Let_def)

section \<open>Properties of the session table\<close>

lemma httpServerSse_post:
  "reqMethod req = ''POST'' \<Longrightarrow> pathname req = ''/mcp'' \<Longrightarrow>
   httpServerSse e req transports =
     (case postSessionSse req of
        None \<Rightarrow> (Replied notFoundSse, transports)
      | Some sid \<Rightarrow>
          if sid = [] then (Replied notFoundSse, transports)
          else (case transports sid of
                  None \<Rightarrow> (Replied notFoundSse, transports)
                | Some t \<Rightarrow> (Forwarded t, transports)))"
  by (simp add: httpServerSse_def)

lemma httpServerHeader_post:
  "reqMethod req = ''POST'' \<Longrightarrow> pathname req = ''/mcp'' \<Longrightarrow>
   httpServerHeader e req sessions =
     (case postSessionHeader req of
        None \<Rightarrow> (Replied invalidSession, sessions)
      | Some sid \<Rightarrow>
          if sid = [] then (Replied invalidSession, sessions)
          else (case sessions sid of
                  None \<Rightarrow> (Replied invalidSession, sessions)
                | Some t \<Rightarrow> (Forwarded t, sessions)))"
  by (simp add: httpServerHeader_def)

lemma rejected_notFoundSse: "rejected (Replied notFoundSse)"
  by (simp add: rejected_def notFoundSse_def)

lemma rejected_invalidSession: "rejected (Replied invalidSession)"
  by (simp add: rejected_def invalidSession_def)

lemma noLiveSession_closed: "noLiveSession (closeHandler s table) (Some s)"
  by (simp add: noLiveSession_def closeHandler_def)

lemma post_no_live_sse:
  "reqMethod req = ''POST'' \<Longrightarrow> pathname req = ''/mcp'' \<Longrightarrow>
   noLiveSession transports (postSessionSse req) \<Longrightarrow>
   httpServerSse e req transports = (Replied notFoundSse, transports)"
  by (auto simp: httpServerSse_post noLiveSession_def split: option.splits)

lemma post_no_live_header:
  "reqMethod req = ''POST'' \<Longrightarrow> pathname req = ''/mcp'' \<Longrightarrow>
   noLiveSession sessions (postSessionHeader req) \<Longrightarrow>
   httpServerHeader e req sessions = (Replied invalidSession, sessions)"
  by (auto simp: httpServerHeader_post noLiveSession_def split: option.splits)

lemma get_table_sse:
  "reqMethod req = ''GET'' \<Longrightarrow> pathname req = ''/mcp'' \<Longrightarrow>
   snd (httpServerSse e req transports) =
     transports(randomUUID e \<mapsto>
       \<lparr>endpoint = ''/mcp?sessionId='' @ randomUUID e, res = conn req\<rparr>)"
  by (simp add: httpServerSse_def Let_def split: option.splits)

lemma get_table_header:
  "reqMethod req = ''GET'' \<Longrightarrow> pathname req = ''/mcp'' \<Longrightarrow>
   snd (httpServerHeader e req sessions) =
     sessions(randomUUID e \<mapsto> \<lparr>endpoint = ''/mcp'', res = conn req\<rparr>)"
  by (simp add: httpServerHeader_def Let_def split: option.splits)

text \<open>
  C1. A POST to \<open>/mcp\<close> whose resolved session identifier is missing or names no entry of
  the session table is answered with a 4xx response carrying a session-not-found error
  body: status 404 in src/server/mcp-server.js, status 401 in part_001. The request is
  answered, never dropped. In particular, once the close listener has run for a session,
  a POST addressed to that session gets this rejection.
\<close>

theorem postMessage_session_not_found:
  assumes "reqMethod req = ''POST''" and "pathname req = ''/mcp''"
  shows
  "(noLiveSession transports (postSessionSse req) \<longrightarrow>
      fst (httpServerSse e req transports) = Replied notFoundSse \<and>
      status notFoundSse = 404 \<and> rejected (fst (httpServerSse e req transports))) \<and>
   (noLiveSession sessions (postSessionHeader req) \<longrightarrow>
      fst (httpServerHeader e req sessions) = Replied invalidSession \<and>
      status invalidSession = 401 \<and> rejected (fst (httpServerHeader e req sessions))) \<and>
   (postSessionSse req = Some s \<longrightarrow>
      fst (httpServerSse e req (closeHandler s transports)) = Replied notFoundSse) \<and>
   (postSessionHeader req = Some s \<longrightarrow>
      fst (httpServerHeader e req (closeHandler s sessions)) = Replied invalidSession)"
proof (intro conjI impI)
  assume a: "noLiveSession transports (postSessionSse req)"
  show "fst (httpServerSse e req transports) = Replied notFoundSse"
    by (simp add: post_no_live_sse [OF assms a])
  show "rejected (fst (httpServerSse e req transports))"
    by (simp add: post_no_live_sse [OF assms a] rejected_notFoundSse)
next
  assume a: "noLiveSession sessions (postSessionHeader req)"
  show "fst (httpServerHeader e req sessions) = Replied invalidSession"
    by (simp add: post_no_live_header [OF assms a])
  show "rejected (fst (httpServerHeader e req sessions))"
    by (simp add: post_no_live_header [OF assms a] rejected_invalidSession)
next
  assume "postSessionSse req = Some s"
  then have "noLiveSession (closeHandler s transports) (postSessionSse req)"
    by (simp add: noLiveSession_closed)
  then show "fst (httpServerSse e req (closeHandler s transports)) = Replied notFoundSse"
    by (simp add: post_no_live_sse [OF assms])
next
  assume "postSessionHeader req = Some s"
  then have "noLiveSession (closeHandler s sessions) (postSessionHeader req)"
    by (simp add: noLiveSession_closed)
  then show "fst (httpServerHeader e req (closeHandler s sessions)) = Replied invalidSession"
    by (simp add: post_no_live_header [OF assms])
next
  show "status notFoundSse = 404" by (simp add: notFoundSse_def)
  show "status invalidSession = 401" by (simp add: invalidSession_def)
qed

theorem postMessage_session_not_found_witness:
  "reqMethod \<lparr>reqMethod = ''POST'', pathname = ''/mcp'', sessionHeader = None,
      sessionParam = Some ''s1'', conn = 3\<rparr> = ''POST'' \<and>
   noLiveSession [''s0'' \<mapsto> \<lparr>endpoint = ''/mcp'', res = 1\<rparr>]
     (postSessionSse \<lparr>reqMethod = ''POST'', pathname = ''/mcp'', sessionHeader = None,
        sessionParam = Some ''s1'', conn = 3\<rparr>) \<and>
   fst (httpServerSse \<lparr>randomUUID = ''u'', connect = None\<rparr>
          \<lparr>reqMethod = ''POST'', pathname = ''/mcp'', sessionHeader = None,
           sessionParam = Some ''s1'', conn = 3\<rparr>
          [''s0'' \<mapsto> \<lparr>endpoint = ''/mcp'', res = 1\<rparr>]) = Replied notFoundSse \<and>
   fst (httpServerHeader \<lparr>randomUUID = ''u'', connect = None\<rparr>
          \<lparr>reqMethod = ''POST'', pathname = ''/mcp'', sessionHeader = None,
           sessionParam = Some ''s1'', conn = 3\<rparr>
          [''s0'' \<mapsto> \<lparr>endpoint = ''/mcp'', res = 1\<rparr>]) = Replied invalidSession \<and>
   fst (httpServerSse \<lparr>randomUUID = ''u'', connect = None\<rparr>
          \<lparr>reqMethod = ''POST'', pathname = ''/mcp'', sessionHeader = None,
           sessionParam = Some ''s1'', conn = 3\<rparr>
          (closeHandler ''s1'' [''s1'' \<mapsto> \<lparr>endpoint = ''/mcp'', res = 1\<rparr>]))
     = Replied notFoundSse"
  using postMessage_session_not_found
    [of "\<lparr>reqMethod = ''POST'', pathname = ''/mcp'', sessionHeader = None,
           sessionParam = Some ''s1'', conn = 3\<rparr>"
        "[''s0'' \<mapsto> \<lparr>endpoint = ''/mcp'', res = 1\<rparr>]"
        "\<lparr>randomUUID = ''u'', connect = None\<rparr>"
        "[''s0'' \<mapsto> \<lparr>endpoint = ''/mcp'', res = 1\<rparr>]"
        "''s1''"]
    postMessage_session_not_found
    [of "\<lparr>reqMethod = ''POST'', pathname = ''/mcp'', sessionHeader = None,
           sessionParam = Some ''s1'', conn = 3\<rparr>"
        "[''s1'' \<mapsto> \<lparr>endpoint = ''/mcp'', res = 1\<rparr>]"
        "\<lparr>randomUUID = ''u'', connect = None\<rparr>"
        "[''s1'' \<mapsto> \<lparr>endpoint = ''/mcp'', res = 1\<rparr>]"
        "''s1''"]
  by (simp add: noLiveSession_def postSessionSse_def postSessionHeader_def orElse_def truthy_def)

text \<open>
  C2, as the code has it. A GET on \<open>/mcp\<close> stores the new transport in the session table
  under the identifier \<open>randomUUID()\<close> returned, without looking the identifier up first.
  When the generated identifier is not yet a key of the table, every existing entry keeps
  its transport. The transport stored by src/server/mcp-server.js is constructed with the
  endpoint string \<open>/mcp?sessionId=\<close> followed by the identifier. When connecting the
  transport to the server succeeds, the stream is opened for that identifier, in part_001
  on a response whose header \<open>X-Mcp-Session-Id\<close> is the identifier. What the SDK
  transport sends to the client is not code of this repository.
\<close>

theorem openChannel_registers_generated_id:
  assumes "reqMethod req = ''GET''" and "pathname req = ''/mcp''"
  shows
  "snd (httpServerSse e req transports) =
     transports(randomUUID e \<mapsto>
       \<lparr>endpoint = ''/mcp?sessionId='' @ randomUUID e, res = conn req\<rparr>) \<and>
   snd (httpServerHeader e req sessions) =
     sessions(randomUUID e \<mapsto> \<lparr>endpoint = ''/mcp'', res = conn req\<rparr>) \<and>
   (connect e = None \<longrightarrow>
      fst (httpServerSse e req transports) =
        StreamOpened (randomUUID e)
          \<lparr>endpoint = ''/mcp?sessionId='' @ randomUUID e, res = conn req\<rparr> corsSse \<and>
      fst (httpServerHeader e req sessions) =
        StreamOpened (randomUUID e) \<lparr>endpoint = ''/mcp'', res = conn req\<rparr>
          (corsHeader @ [(''X-Mcp-Session-Id'', randomUUID e)])) \<and>
   (transports (randomUUID e) = None \<longrightarrow> transports s = Some t \<longrightarrow>
      snd (httpServerSse e req transports) s = Some t) \<and>
   (sessions (randomUUID e) = None \<longrightarrow> sessions s = Some t \<longrightarrow>
      snd (httpServerHeader e req sessions) s = Some t)"
proof (intro conjI impI)
  show "snd (httpServerSse e req transports) =
     transports(randomUUID e \<mapsto>
       \<lparr>endpoint = ''/mcp?sessionId='' @ randomUUID e, res = conn req\<rparr>)"
    by (rule get_table_sse [OF assms])
  show "snd (httpServerHeader e req sessions) =
     sessions(randomUUID e \<mapsto> \<lparr>endpoint = ''/mcp'', res = conn req\<rparr>)"
    by (rule get_table_header [OF assms])
next
  assume "connect e = None"
  then show "fst (httpServerSse e req transports) =
        StreamOpened (randomUUID e)
          \<lparr>endpoint = ''/mcp?sessionId='' @ randomUUID e, res = conn req\<rparr> corsSse"
    using assms by (simp add: httpServerSse_def Let_def)
  assume "connect e = None"
  then show "fst (httpServerHeader e req sessions) =
        StreamOpened (randomUUID e) \<lparr>endpoint = ''/mcp'', res = conn req\<rparr>
          (corsHeader @ [(''X-Mcp-Session-Id'', randomUUID e)])"
    using assms by (simp add: httpServerHeader_def Let_def)
next
  assume "transports (randomUUID e) = None" and "transports s = Some t"
  then show "snd (httpServerSse e req transports) s = Some t"
    by (auto simp: get_table_sse [OF assms])
next
  assume "sessions (randomUUID e) = None" and "sessions s = Some t"
  then show "snd (httpServerHeader e req sessions) s = Some t"
    by (auto simp: get_table_header [OF assms])
qed

theorem openChannel_registers_generated_id_witness:
  "reqMethod \<lparr>reqMethod = ''GET'', pathname = ''/mcp'', sessionHeader = None,
      sessionParam = None, conn = 2\<rparr> = ''GET'' \<and>
   connect \<lparr>randomUUID = ''9a1b2c3d-4e5f-4a6b-8c7d-0e1f2a3b4c5d'', connect = None\<rparr> = None \<and>
   [''s0'' \<mapsto> \<lparr>endpoint = ''/mcp'', res = 1\<rparr>] ''9a1b2c3d-4e5f-4a6b-8c7d-0e1f2a3b4c5d'' = None \<and>
   snd (httpServerHeader \<lparr>randomUUID = ''9a1b2c3d-4e5f-4a6b-8c7d-0e1f2a3b4c5d'', connect = None\<rparr>
          \<lparr>reqMethod = ''GET'', pathname = ''/mcp'', sessionHeader = None,
           sessionParam = None, conn = 2\<rparr>
          [''s0'' \<mapsto> \<lparr>endpoint = ''/mcp'', res = 1\<rparr>]) ''s0''
     = Some \<lparr>endpoint = ''/mcp'', res = 1\<rparr> \<and>
   snd (httpServerHeader \<lparr>randomUUID = ''9a1b2c3d-4e5f-4a6b-8c7d-0e1f2a3b4c5d'', connect = None\<rparr>
          \<lparr>reqMethod = ''GET'', pathname = ''/mcp'', sessionHeader = None,
           sessionParam = None, conn = 2\<rparr>
          [''s0'' \<mapsto> \<lparr>endpoint = ''/mcp'', res = 1\<rparr>]) ''9a1b2c3d-4e5f-4a6b-8c7d-0e1f2a3b4c5d''
     = Some \<lparr>endpoint = ''/mcp'', res = 2\<rparr> \<and>
   fst (httpServerSse \<lparr>randomUUID = ''9a1b2c3d-4e5f-4a6b-8c7d-0e1f2a3b4c5d'', connect = None\<rparr>
          \<lparr>reqMethod = ''GET'', pathname = ''/mcp'', sessionHeader = None,
           sessionParam = None, conn = 2\<rparr>
          [''s0'' \<mapsto> \<lparr>endpoint = ''/mcp'', res = 1\<rparr>])
     = StreamOpened ''9a1b2c3d-4e5f-4a6b-8c7d-0e1f2a3b4c5d''
         \<lparr>endpoint = ''/mcp?sessionId=9a1b2c3d-4e5f-4a6b-8c7d-0e1f2a3b4c5d'', res = 2\<rparr> corsSse"
  using openChannel_registers_generated_id
    [of "\<lparr>reqMethod = ''GET'', pathname = ''/mcp'', sessionHeader = None,
           sessionParam = None, conn = 2\<rparr>"
        "\<lparr>randomUUID = ''9a1b2c3d-4e5f-4a6b-8c7d-0e1f2a3b4c5d'', connect = None\<rparr>"
        "[''s0'' \<mapsto> \<lparr>endpoint = ''/mcp'', res = 1\<rparr>]"
        "[''s0'' \<mapsto> \<lparr>endpoint = ''/mcp'', res = 1\<rparr>]"
        "''s0''" "\<lparr>endpoint = ''/mcp'', res = 1\<rparr>"]
  by simp

text \<open>
  The claim C2 as stated has the identifier checked against the live table, so that no open
  request overwrites the channel of a live session, and has every open request return the
  identifier and the channel. The code performs no such check: if \<open>randomUUID()\<close> returns
  the key of a live entry, the entry's transport is replaced. And when connecting the
  transport throws, the handler rejects with the entry already stored: no stream is opened
  and nothing is returned.
\<close>

theorem openChannel_overwrites_counterexample:
  "[''5b0c6f0e-2d1a-4c3b-8e9f-7a6b5c4d3e2f'' \<mapsto>
      \<lparr>endpoint = ''/mcp?sessionId=5b0c6f0e-2d1a-4c3b-8e9f-7a6b5c4d3e2f'', res = 1\<rparr>]
     ''5b0c6f0e-2d1a-4c3b-8e9f-7a6b5c4d3e2f''
     = Some \<lparr>endpoint = ''/mcp?sessionId=5b0c6f0e-2d1a-4c3b-8e9f-7a6b5c4d3e2f'', res = 1\<rparr> \<and>
   snd (httpServerSse
          \<lparr>randomUUID = ''5b0c6f0e-2d1a-4c3b-8e9f-7a6b5c4d3e2f'', connect = None\<rparr>
          \<lparr>reqMethod = ''GET'', pathname = ''/mcp'', sessionHeader = None,
           sessionParam = None, conn = 2\<rparr>
          [''5b0c6f0e-2d1a-4c3b-8e9f-7a6b5c4d3e2f'' \<mapsto>
             \<lparr>endpoint = ''/mcp?sessionId=5b0c6f0e-2d1a-4c3b-8e9f-7a6b5c4d3e2f'', res = 1\<rparr>])
     ''5b0c6f0e-2d1a-4c3b-8e9f-7a6b5c4d3e2f''
     = Some \<lparr>endpoint = ''/mcp?sessionId=5b0c6f0e-2d1a-4c3b-8e9f-7a6b5c4d3e2f'', res = 2\<rparr> \<and>
   httpServerHeader
     \<lparr>randomUUID = ''9a1b2c3d-4e5f-4a6b-8c7d-0e1f2a3b4c5d'',
      connect = Some ''Already connected to a transport''\<rparr>
     \<lparr>reqMethod = ''GET'', pathname = ''/mcp'', sessionHeader = None,
      sessionParam = None, conn = 2\<rparr>
     Map.empty
     = (Unhandled ''Already connected to a transport'',
        [''9a1b2c3d-4e5f-4a6b-8c7d-0e1f2a3b4c5d'' \<mapsto> \<lparr>endpoint = ''/mcp'', res = 2\<rparr>])"
  by (simp add: httpServerSse_def httpServerHeader_def Let_def)

text \<open>
  C3, as the code has it. In the session-keyed variants the close listener is idempotent on
  the session table: its first run removes the entry of the session and leaves every other
  entry alone; a second run for the same session, or a run for a session that has no entry,
  returns the table unchanged. It is a total function on tables (\<open>Map.delete\<close> of a missing
  key does not throw) and takes no cause of closure. The listener does not release the
  channel: on the first run and on the second it makes no call on the transport or on the
  server.
\<close>

theorem closeListener_idempotent_table_only:
  "fst (closeListener s (fst (closeListener s table))) = fst (closeListener s table) \<and>
   fst (closeListener s table) s = None \<and>
   (k \<noteq> s \<longrightarrow> fst (closeListener s table) k = table k) \<and>
   (table s = None \<longrightarrow> fst (closeListener s table) = table) \<and>
   snd (closeListener s table) = [] \<and>
   snd (closeListener s (fst (closeListener s table))) = []"
  by (auto simp: closeListener_def closeHandler_def)

theorem closeListener_idempotent_table_only_witness:
  "''s0'' \<noteq> ''s1'' \<and>
   fst (closeListener ''s1'' [''s0'' \<mapsto> \<lparr>endpoint = ''/mcp'', res = 1\<rparr>,
                             ''s1'' \<mapsto> \<lparr>endpoint = ''/mcp'', res = 2\<rparr>]) ''s0''
     = Some \<lparr>endpoint = ''/mcp'', res = 1\<rparr> \<and>
   fst (closeListener ''s1'' [''s0'' \<mapsto> \<lparr>endpoint = ''/mcp'', res = 1\<rparr>,
                             ''s1'' \<mapsto> \<lparr>endpoint = ''/mcp'', res = 2\<rparr>]) ''s1'' = None \<and>
   [''s0'' \<mapsto> \<lparr>endpoint = ''/mcp'', res = 1\<rparr>] ''s1'' = None \<and>
   fst (closeListener ''s1'' [''s0'' \<mapsto> \<lparr>endpoint = ''/mcp'', res = 1\<rparr>])
     = [''s0'' \<mapsto> \<lparr>endpoint = ''/mcp'', res = 1\<rparr>]"
  using closeListener_idempotent_table_only
    [of "''s1''" "[''s0'' \<mapsto> \<lparr>endpoint = ''/mcp'', res = 1\<rparr>,
                   ''s1'' \<mapsto> \<lparr>endpoint = ''/mcp'', res = 2\<rparr>]" "''s0''"]
    closeListener_idempotent_table_only
    [of "''s1''" "[''s0'' \<mapsto> \<lparr>endpoint = ''/mcp'', res = 1\<rparr>]" "''s0''"]
  by simp

text \<open>
  The claim C3 as stated has the first invocation release the channel as well. The first
  run of the listener for a live session removes its entry and makes no call at all on the
  transport or the server: neither \<open>transport.close()\<close> nor \<open>server.close()\<close>.
\<close>

theorem closeListener_no_release_counterexample:
  "[''s1'' \<mapsto> \<lparr>endpoint = ''/mcp?sessionId=s1'', res = 1\<rparr>] ''s1''
     = Some \<lparr>endpoint = ''/mcp?sessionId=s1'', res = 1\<rparr> \<and>
   fst (closeListener ''s1'' [''s1'' \<mapsto> \<lparr>endpoint = ''/mcp?sessionId=s1'', res = 1\<rparr>]) ''s1''
     = None \<and>
   snd (closeListener ''s1'' [''s1'' \<mapsto> \<lparr>endpoint = ''/mcp?sessionId=s1'', res = 1\<rparr>]) = [] \<and>
   TransportClose
     \<notin> set (snd (closeListener ''s1''
                 [''s1'' \<mapsto> \<lparr>endpoint = ''/mcp?sessionId=s1'', res = 1\<rparr>]))"
  by (simp add: closeListener_def closeHandler_def)

text \<open>
  C7. A POST to \<open>/mcp\<close> whose session identifier names no entry of the session table is
  rejected with a 4xx response and leaves the table exactly as it was: the request is not
  forwarded to any transport, no stream is opened, and no entry is added or removed.
\<close>

theorem post_unknown_session_no_side_effect:
  assumes "reqMethod req = ''POST''" and "pathname req = ''/mcp''"
  shows
  "(noLiveSession transports (postSessionSse req) \<longrightarrow>
      snd (httpServerSse e req transports) = transports \<and>
      fst (httpServerSse e req transports) \<noteq> Forwarded t \<and>
      fst (httpServerSse e req transports) \<noteq> StreamOpened sid t hs \<and>
      rejected (fst (httpServerSse e req transports))) \<and>
   (noLiveSession sessions (postSessionHeader req) \<longrightarrow>
      snd (httpServerHeader e req sessions) = sessions \<and>
      fst (httpServerHeader e req sessions) \<noteq> Forwarded t \<and>
      fst (httpServerHeader e req sessions) \<noteq> StreamOpened sid t hs \<and>
      rejected (fst (httpServerHeader e req sessions)))"
proof (intro conjI impI)
  assume a: "noLiveSession transports (postSessionSse req)"
  note r = post_no_live_sse [OF assms a]
  show "snd (httpServerSse e req transports) = transports" by (simp add: r)
  show "fst (httpServerSse e req transports) \<noteq> Forwarded t" by (simp add: r)
  show "fst (httpServerSse e req transports) \<noteq> StreamOpened sid t hs" by (simp add: r)
  show "rejected (fst (httpServerSse e req transports))"
    by (simp add: r rejected_notFoundSse)
next
  assume a: "noLiveSession sessions (postSessionHeader req)"
  note r = post_no_live_header [OF assms a]
  show "snd (httpServerHeader e req sessions) = sessions" by (simp add: r)
  show "fst (httpServerHeader e req sessions) \<noteq> Forwarded t" by (simp add: r)
  show "fst (httpServerHeader e req sessions) \<noteq> StreamOpened sid t hs" by (simp add: r)
  show "rejected (fst (httpServerHeader e req sessions))"
    by (simp add: r rejected_invalidSession)
qed

theorem post_unknown_session_no_side_effect_witness:
  "pathname \<lparr>reqMethod = ''POST'', pathname = ''/mcp'', sessionHeader = Some ''never-opened'',
      sessionParam = None, conn = 3\<rparr> = ''/mcp'' \<and>
   noLiveSession [''s0'' \<mapsto> \<lparr>endpoint = ''/mcp'', res = 1\<rparr>]
     (postSessionHeader \<lparr>reqMethod = ''POST'', pathname = ''/mcp'',
        sessionHeader = Some ''never-opened'', sessionParam = None, conn = 3\<rparr>) \<and>
   snd (httpServerHeader \<lparr>randomUUID = ''u'', connect = None\<rparr>
          \<lparr>reqMethod = ''POST'', pathname = ''/mcp'', sessionHeader = Some ''never-opened'',
           sessionParam = None, conn = 3\<rparr>
          [''s0'' \<mapsto> \<lparr>endpoint = ''/mcp'', res = 1\<rparr>])
     = [''s0'' \<mapsto> \<lparr>endpoint = ''/mcp'', res = 1\<rparr>] \<and>
   snd (httpServerSse \<lparr>randomUUID = ''u'', connect = None\<rparr>
          \<lparr>reqMethod = ''POST'', pathname = ''/mcp'', sessionHeader = Some ''never-opened'',
           sessionParam = None, conn = 3\<rparr>
          [''s0'' \<mapsto> \<lparr>endpoint = ''/mcp'', res = 1\<rparr>])
     = [''s0'' \<mapsto> \<lparr>endpoint = ''/mcp'', res = 1\<rparr>]"
  using post_unknown_session_no_side_effect
    [of "\<lparr>reqMethod = ''POST'', pathname = ''/mcp'', sessionHeader = Some ''never-opened'',
           sessionParam = None, conn = 3\<rparr>"
        "[''s0'' \<mapsto> \<lparr>endpoint = ''/mcp'', res = 1\<rparr>]"
        "\<lparr>randomUUID = ''u'', connect = None\<rparr>"
        "\<lparr>endpoint = ''/mcp'', res = 1\<rparr>" "''s0''" "[]"
        "[''s0'' \<mapsto> \<lparr>endpoint = ''/mcp'', res = 1\<rparr>]"]
  by (simp add: noLiveSession_def postSessionSse_def postSessionHeader_def orElse_def truthy_def)

text \<open>
  C8, as the code has it. In part_001 a non-empty \<open>x-mcp-session-id\<close> header is the session
  identifier looked up in the table, whatever the query parameter holds; when the header is
  missing or empty the query parameter \<open>sessionId\<close> is looked up instead. In
  src/server/mcp-server.js the query parameter alone is looked up.
\<close>

theorem session_identifier_resolution:
  assumes "reqMethod req = ''POST''" and "pathname req = ''/mcp''"
  shows
  "(sessionHeader req = Some h \<longrightarrow> h \<noteq> [] \<longrightarrow>
      httpServerHeader e req sessions =
        (case sessions h of
           None \<Rightarrow> (Replied invalidSession, sessions)
         | Some t \<Rightarrow> (Forwarded t, sessions))) \<and>
   (\<not> truthy (sessionHeader req) \<longrightarrow> sessionParam req = Some q \<longrightarrow> q \<noteq> [] \<longrightarrow>
      httpServerHeader e req sessions =
        (case sessions q of
           None \<Rightarrow> (Replied invalidSession, sessions)
         | Some t \<Rightarrow> (Forwarded t, sessions))) \<and>
   (sessionParam req = Some q \<longrightarrow> q \<noteq> [] \<longrightarrow>
      httpServerSse e req transports =
        (case transports q of
           None \<Rightarrow> (Replied notFoundSse, transports)
         | Some t \<Rightarrow> (Forwarded t, transports)))"
  by (simp add: httpServerHeader_post [OF assms] httpServerSse_post [OF assms]
      postSessionHeader_def postSessionSse_def orElse_def truthy_def)

theorem session_identifier_resolution_witness:
  "sessionHeader \<lparr>reqMethod = ''POST'', pathname = ''/mcp'', sessionHeader = Some ''a'',
      sessionParam = Some ''b'', conn = 3\<rparr> = Some ''a'' \<and> ''a'' \<noteq> [] \<and>
   httpServerHeader \<lparr>randomUUID = ''u'', connect = None\<rparr>
     \<lparr>reqMethod = ''POST'', pathname = ''/mcp'', sessionHeader = Some ''a'',
      sessionParam = Some ''b'', conn = 3\<rparr>
     [''a'' \<mapsto> \<lparr>endpoint = ''/mcp'', res = 1\<rparr>, ''b'' \<mapsto> \<lparr>endpoint = ''/mcp'', res = 2\<rparr>]
   = (Forwarded \<lparr>endpoint = ''/mcp'', res = 1\<rparr>,
      [''a'' \<mapsto> \<lparr>endpoint = ''/mcp'', res = 1\<rparr>, ''b'' \<mapsto> \<lparr>endpoint = ''/mcp'', res = 2\<rparr>])"
  using session_identifier_resolution
    [of "\<lparr>reqMethod = ''POST'', pathname = ''/mcp'', sessionHeader = Some ''a'',
           sessionParam = Some ''b'', conn = 3\<rparr>" "''a''"
        "\<lparr>randomUUID = ''u'', connect = None\<rparr>"
        "[''a'' \<mapsto> \<lparr>endpoint = ''/mcp'', res = 1\<rparr>, ''b'' \<mapsto> \<lparr>endpoint = ''/mcp'', res = 2\<rparr>]"
        "''b''"
        "[''a'' \<mapsto> \<lparr>endpoint = ''/mcp'', res = 1\<rparr>, ''b'' \<mapsto> \<lparr>endpoint = ''/mcp'', res = 2\<rparr>]"]
  by simp

text \<open>
  The claim C8 as stated has the header win in every request that carries both. In
  src/server/mcp-server.js a request carrying header \<open>a\<close> and query parameter \<open>b\<close> is
  forwarded to the transport of \<open>b\<close>; in part_001 a request carrying an empty header and
  query parameter \<open>b\<close> is forwarded to the transport of \<open>b\<close>.
\<close>

theorem header_priority_counterexample:
  "fst (httpServerSse \<lparr>randomUUID = ''u'', connect = None\<rparr>
     \<lparr>reqMethod = ''POST'', pathname = ''/mcp'', sessionHeader = Some ''a'',
      sessionParam = Some ''b'', conn = 3\<rparr>
     [''a'' \<mapsto> \<lparr>endpoint = ''/mcp?sessionId=a'', res = 1\<rparr>,
      ''b'' \<mapsto> \<lparr>endpoint = ''/mcp?sessionId=b'', res = 2\<rparr>])
     = Forwarded \<lparr>endpoint = ''/mcp?sessionId=b'', res = 2\<rparr> \<and>
   fst (httpServerHeader \<lparr>randomUUID = ''u'', connect = None\<rparr>
     \<lparr>reqMethod = ''POST'', pathname = ''/mcp'', sessionHeader = Some [],
      sessionParam = Some ''b'', conn = 3\<rparr>
     [''a'' \<mapsto> \<lparr>endpoint = ''/mcp'', res = 1\<rparr>, ''b'' \<mapsto> \<lparr>endpoint = ''/mcp'', res = 2\<rparr>])
     = Forwarded \<lparr>endpoint = ''/mcp'', res = 2\<rparr>"
  by (simp add: httpServerSse_def httpServerHeader_def postSessionSse_def
      postSessionHeader_def orElse_def truthy_def)

text \<open>
  C9, as the code has it. A DELETE on \<open>/mcp\<close> is answered by part_000 with status 405
  (\<open>Method not allowed.\<close>) and by src/server/mcp-server.js and part_001 with the
  fall-through 404, the session table unchanged. part_002 does not look at the method: its
  answer is whatever \<open>handleRequest\<close> of the SDK transport does with the request.
\<close>

theorem delete_on_mcp:
  assumes "reqMethod req = ''DELETE''" and "pathname req = ''/mcp''"
  shows
  "httpServerStateless sdk req = Replied methodNotAllowed \<and>
   status methodNotAllowed = 405 \<and>
   rejected (httpServerStateless sdk req) \<and>
   httpServerSse e req transports
     = (Replied \<lparr>status = 404, headers = corsSse, body = ''Not Found''\<rparr>, transports) \<and>
   httpServerHeader e req sessions
     = (Replied \<lparr>status = 404, headers = corsHeader,
                 body = ''Not Found - Use /mcp endpoint''\<rparr>, sessions) \<and>
   rejected (fst (httpServerSse e req transports)) \<and>
   rejected (fst (httpServerHeader e req sessions)) \<and>
   httpServerShared handleRequest req
     = (case handleRequest req of Inl m \<Rightarrow> Unhandled m | Inr r \<Rightarrow> Replied r)"
  using assms
  by (simp add: httpServerStateless_def httpServerSse_def httpServerHeader_def
      httpServerShared_def rejected_def methodNotAllowed_def)

theorem delete_on_mcp_witness:
  "reqMethod \<lparr>reqMethod = ''DELETE'', pathname = ''/mcp'', sessionHeader = None,
      sessionParam = None, conn = 3\<rparr> = ''DELETE'' \<and>
   pathname \<lparr>reqMethod = ''DELETE'', pathname = ''/mcp'', sessionHeader = None,
      sessionParam = None, conn = 3\<rparr> = ''/mcp'' \<and>
   httpServerStateless failingSdk
     \<lparr>reqMethod = ''DELETE'', pathname = ''/mcp'', sessionHeader = None,
      sessionParam = None, conn = 3\<rparr> = Replied methodNotAllowed \<and>
   rejected (httpServerStateless failingSdk
     \<lparr>reqMethod = ''DELETE'', pathname = ''/mcp'', sessionHeader = None,
      sessionParam = None, conn = 3\<rparr>) \<and>
   fst (httpServerSse \<lparr>randomUUID = ''u'', connect = None\<rparr>
     \<lparr>reqMethod = ''DELETE'', pathname = ''/mcp'', sessionHeader = None,
      sessionParam = None, conn = 3\<rparr> Map.empty)
     = Replied \<lparr>status = 404, headers = corsSse, body = ''Not Found''\<rparr>"
  using delete_on_mcp
    [of "\<lparr>reqMethod = ''DELETE'', pathname = ''/mcp'', sessionHeader = None,
           sessionParam = None, conn = 3\<rparr>" failingSdk
        "\<lparr>randomUUID = ''u'', connect = None\<rparr>" Map.empty Map.empty acceptingTransport]
  by (simp add: rejected_def methodNotAllowed_def)

text \<open>
  The claim C9 as stated has the server reject DELETE in every mode. In part_002 the server
  itself rejects nothing on \<open>/mcp\<close>: with a transport that honours the request, the DELETE
  is answered with status 200.
\<close>

theorem delete_delegated_counterexample:
  "httpServerShared acceptingTransport
     \<lparr>reqMethod = ''DELETE'', pathname = ''/mcp'', sessionHeader = Some ''s1'',
      sessionParam = None, conn = 3\<rparr>
     = Replied \<lparr>status = 200, headers = [], body = []\<rparr> \<and>
   \<not> rejected (httpServerShared acceptingTransport
     \<lparr>reqMethod = ''DELETE'', pathname = ''/mcp'', sessionHeader = Some ''s1'',
      sessionParam = None, conn = 3\<rparr>)"
  by (simp add: httpServerShared_def acceptingTransport_def rejected_def)

section \<open>Properties of the TTL cache\<close>

text \<open>
  C6. For every key \<open>k\<close> and value \<open>v\<close>, a get of \<open>k\<close> on the cache as set left it, with no
  write in between, returns \<open>v\<close> and leaves the cache as it was while fewer than \<open>ttl\<close>
  seconds have passed since the set; once \<open>ttl\<close> seconds have passed it returns absent, and
  that read removes the entry of \<open>k\<close> from the backing store, leaving the other entries and
  the TTL alone.
\<close>

theorem cache_get_after_set:
  "(now' - now < ttl c \<longrightarrow>
      cacheGet (cacheSet c now k v) now' k = (Some v, cacheSet c now k v)) \<and>
   (ttl c \<le> now' - now \<longrightarrow>
      fst (cacheGet (cacheSet c now k v) now' k) = None \<and>
      store (snd (cacheGet (cacheSet c now k v) now' k)) k = None \<and>
      (k' \<noteq> k \<longrightarrow> store (snd (cacheGet (cacheSet c now k v) now' k)) k' = store c k') \<and>
      ttl (snd (cacheGet (cacheSet c now k v) now' k)) = ttl c)"
  by (simp add: cacheGet_def cacheSet_def)

theorem cache_get_after_set_witness:
  "(86399::int) - 0 < ttl (newCacheService None) \<and>
   cacheGet (cacheSet (newCacheService None) 0 ''pubmed:asthma:5'' (42::nat)) 86399
       ''pubmed:asthma:5''
     = (Some 42, cacheSet (newCacheService None) 0 ''pubmed:asthma:5'' 42) \<and>
   ttl (newCacheService None) \<le> (86400::int) - 0 \<and>
   fst (cacheGet (cacheSet (newCacheService None) 0 ''pubmed:asthma:5'' (42::nat)) 86400
       ''pubmed:asthma:5'') = None \<and>
   store (snd (cacheGet (cacheSet (newCacheService None) 0 ''pubmed:asthma:5'' (42::nat)) 86400
       ''pubmed:asthma:5'')) ''pubmed:asthma:5'' = None"
  using cache_get_after_set
    [of 86399 0 "newCacheService None" "''pubmed:asthma:5''" "42::nat" "''other''"]
    cache_get_after_set
    [of 86400 0 "newCacheService None" "''pubmed:asthma:5''" "42::nat" "''other''"]
  by (simp add: newCacheService_def cacheTtl_def)

end
